theory Spec2Isabelle
  imports Main "HOL-Library.Word" "HOL-Library.Code_Target_Nat"
begin

section \<open>Shared types\<close>

type_synonym UInt8 = "8 word"
type_synonym UInt16 = "16 word"
type_synonym UInt32 = "32 word"
type_synonym UInt64 = "64 word"
type_synonym IOReturn = "32 word"

text \<open>
  Objects that the drivers hold by pointer (event sources, ring buffers, owners, actions)
  are identified by a number; a pointer that may be NULL is an \<open>option\<close> with
  \<open>None\<close> for NULL.
\<close>

type_synonym pointer = nat

text \<open>
  \<open>IOReturn\<close> is a 32-bit code of IOKit; \<open>kIOReturnSuccess\<close> is 0 and
  \<open>kIOReturnError\<close> is \<open>iokit_common_err(0x2bc)\<close>. A C++ function declared
  \<open>bool\<close> that returns such a code returns whether the code is nonzero.
\<close>

definition kIOReturnSuccess :: IOReturn where
  "kIOReturnSuccess = 0"

definition kIOReturnError :: IOReturn where
  "kIOReturnError = 0xE00002BC"

definition bool_of_IOReturn :: "IOReturn \<Rightarrow> bool" where
  "bool_of_IOReturn r = (r \<noteq> 0)"

text \<open>The receive buffer handed to the read call: the handler's 128-byte array, or heap memory.\<close>

datatype buffer = data128 | heap pointer

text \<open>
  Every call that leaves the two drivers (to the work loop, to an event source, to the
  VMBus controller, to the kernel allocator, to the superclass) is recorded, in order, with
  its arguments. \<open>EvIOMalloc\<close> also holds the address that the allocator returned.
\<close>

datatype event =
    EvSuperAttach
  | EvSetLocation UInt32
  | EvSuperDetach
  | EvSetupInterrupt
  | EvTeardownInterrupt
  | EvInterruptEventSource pointer pointer
  | EvAddEventSource pointer
  | EvEnable pointer
  | EvDisable pointer
  | EvRemoveEventSource pointer
  | EvRelease pointer
  | EvInitVMBusChannel UInt32 UInt32 UInt32
  | EvOpenVMBusChannel UInt32
  | EvSuperStart
  | EvSuperStop
  | EvRetain
  | EvProviderInterruptEventSource
  | EvWriteInbandPacket UInt32 UInt32 UInt32 bool
  | EvNextInbandPacketAvailable
  | EvIOMalloc UInt32 pointer
  | EvReadInbandCompletionPacket buffer UInt32
  | EvClockGetUptime
  | EvDispatchKeyboardEvent UInt32 bool UInt64
  | EvIOFree buffer UInt32

type_synonym log = "event list"

section \<open>Keyboard messages\<close>

record HyperVKeyboardMessageKeystroke =
  makeCode :: UInt16
  isBreak :: bool
  isE0 :: bool

text \<open>
  The message union, as the handler reads it: the type of the header, and the keystroke
  view of the body.
\<close>

record HyperVKeyboardMessage =
  header_type :: UInt32
  keystroke :: HyperVKeyboardMessageKeystroke

section \<open>The platform\<close>

text \<open>
  What the code at hand calls and does not define answers through this record. Each answer
  is a function of the log up to and including the call, so that a collaborator may answer
  differently from one call to the next. The constants and the key table come from headers
  that are not at hand and are fields as well.
\<close>

record platform =
  super_attach_returns :: "log \<Rightarrow> bool"
  setupInterrupt_returns :: "log \<Rightarrow> bool"
  interruptEventSource_returns :: "log \<Rightarrow> pointer option"
  initVMBusChannel_returns :: "log \<Rightarrow> bool \<times> pointer option \<times> pointer option"
  openVMBusChannel_returns :: "log \<Rightarrow> bool"
  super_start_returns :: "log \<Rightarrow> bool"
  nextInbandPacketAvailable_returns :: "log \<Rightarrow> UInt32 option"
  IOMalloc_returns :: "log \<Rightarrow> UInt32 \<Rightarrow> pointer"
  readInbandCompletionPacket_returns :: "log \<Rightarrow> IOReturn \<times> HyperVKeyboardMessage"
  clock_get_uptime_returns :: "log \<Rightarrow> UInt64"
  kHyperVKeyboardRingBufferSize :: UInt32
  kHyperVKeyboardMessageTypeProtocolRequest :: UInt32
  kHyperVKeyboardMessageTypeProtocolResponse :: UInt32
  kHyperVKeyboardMessageTypeEvent :: UInt32
  kHyperVKeyboardVersion :: UInt32
  sizeof_ProtocolRequest :: UInt32
  PS2ToADBMapStock :: "nat \<Rightarrow> UInt8"
  kADBConverterExStart :: nat

section \<open>VMBusDriver.hpp\<close>

definition kHyperVMaxChannels :: nat where
  "kHyperVMaxChannels = 256"

definition kHyperVGpadlStartHandle :: UInt32 where
  "kHyperVGpadlStartHandle = 0xE1E10"

record HyperVDMABuffer =
  bufDesc :: "pointer option"
  dmaCmd :: "pointer option"
  physAddr :: UInt64
  buffer :: "pointer option"
  size_bytes :: nat

datatype VMBusChannelStatus =
    kVMBusChannelStatusNotPresent
  | kVMBusChannelStatusClosed
  | kVMBusChannelStatusGpadlConfigured
  | kVMBusChannelStatusOpen

text \<open>
  The per-channel record (\<open>size\<close> of a DMA buffer is \<open>size_bytes\<close> above). The
  offer message is a structure of a header that is not at hand and stays a type parameter.
  The nub below has fields \<open>txBuffer\<close> and \<open>rxBuffer\<close> too; those of the channel
  record are \<open>VMBusChannel.txBuffer\<close> and \<open>VMBusChannel.rxBuffer\<close> from there on.
\<close>

record 'offer VMBusChannel =
  status :: VMBusChannelStatus
  typeGuidString :: string
  offerMessage :: 'offer
  gpadlHandle :: UInt32
  dataBuffer :: HyperVDMABuffer
  eventBuffer :: HyperVDMABuffer
  rxPageIndex :: UInt16
  txBuffer :: "pointer option"
  rxBuffer :: "pointer option"

section \<open>HyperVVMBusDevice\<close>

record device =
  channelIsOpen :: bool
  channelId :: UInt32
  vmbusProvider :: "pointer option"
  txBufferSize :: UInt32
  rxBufferSize :: UInt32
  txBuffer :: "pointer option"
  rxBuffer :: "pointer option"
  childInterruptSource :: "pointer option"

text \<open>
  \<open>setupInterrupt\<close> and \<open>teardownInterrupt\<close> are members of the class whose bodies
  are in another file. They build and drop the interrupt plumbing of the nub (its work loop
  and what hangs on it); here each is one recorded call, and \<open>setupInterrupt\<close> reports
  what the platform answers. Neither touches the fields of \<open>device\<close>.
\<close>

definition setupInterrupt :: "platform \<Rightarrow> log \<Rightarrow> bool \<times> log" where
  "setupInterrupt P lg = (let lg' = lg @ [EvSetupInterrupt] in (setupInterrupt_returns P lg', lg'))"

definition teardownInterrupt :: "log \<Rightarrow> log" where
  "teardownInterrupt lg = lg @ [EvTeardownInterrupt]"

text \<open>
  The two calls to the controller. \<open>initVMBusChannel\<close> receives the addresses of
  \<open>txBuffer\<close> and \<open>rxBuffer\<close>: the platform's answer holds the values they have
  afterwards. The code drops what the calls return; the model keeps it in the first
  component so that theorems can speak about it.
\<close>

definition initVMBusChannel ::
  "platform \<Rightarrow> UInt32 \<Rightarrow> UInt32 \<Rightarrow> UInt32 \<Rightarrow> device \<times> log \<Rightarrow> bool \<times> device \<times> log" where
  "initVMBusChannel P cid txSize rxSize s =
     (case s of (d, lg) \<Rightarrow>
        let lg' = lg @ [EvInitVMBusChannel cid txSize rxSize] in
        (case initVMBusChannel_returns P lg' of (r, txb, rxb) \<Rightarrow>
           (r, d\<lparr>txBuffer := txb, rxBuffer := rxb\<rparr>, lg')))"

definition openVMBusChannel :: "platform \<Rightarrow> UInt32 \<Rightarrow> log \<Rightarrow> bool \<times> log" where
  "openVMBusChannel P cid lg =
     (let lg' = lg @ [EvOpenVMBusChannel cid] in (openVMBusChannel_returns P lg', lg'))"

text \<open>
  \<open>attach\<close>: \<open>channelNumber\<close> is the property read from the registry entry (NULL when it is
  absent or not a number) and \<open>provider\<close> the result of the cast of the provider to the
  controller.
\<close>

definition attach ::
  "platform \<Rightarrow> UInt32 option \<Rightarrow> pointer option \<Rightarrow> device \<times> log \<Rightarrow> bool \<times> device \<times> log" where
  "attach P channelNumber provider s =
     (case s of (d, lg) \<Rightarrow>
        let lg1 = lg @ [EvSuperAttach] in
        if \<not> super_attach_returns P lg1 then (False, d, lg1)
        else
          let d1 = d\<lparr>channelIsOpen := False, vmbusProvider := provider\<rparr> in
          (case channelNumber of
             None \<Rightarrow> (False, d1, lg1)
           | Some n \<Rightarrow>
               if provider = None then (False, d1, lg1)
               else (True, d1\<lparr>channelId := n\<rparr>, lg1 @ [EvSetLocation n])))"

text \<open>Lines 73 to 76 of \<open>openChannel\<close>: the two controller calls, then \<open>return true\<close>.\<close>

definition openChannel_controller_calls :: "platform \<Rightarrow> device \<times> log \<Rightarrow> bool \<times> device \<times> log" where
  "openChannel_controller_calls P s =
     (case s of (d, lg) \<Rightarrow>
        (case initVMBusChannel P (channelId d) (txBufferSize d) (rxBufferSize d) (d, lg) of
           (r1, d1, lg1) \<Rightarrow>
             (case openVMBusChannel P (channelId d1) lg1 of
                (r2, lg2) \<Rightarrow> (True, d1, lg2))))"

definition openChannel ::
  "platform \<Rightarrow> UInt32 \<Rightarrow> UInt32 \<Rightarrow> pointer option \<Rightarrow> pointer option \<Rightarrow> device \<times> log
     \<Rightarrow> bool \<times> device \<times> log" where
  "openChannel P txSize rxSize owner intAction s =
     (case s of (d, lg) \<Rightarrow>
        if channelIsOpen d then (True, d, lg)
        else
          let d1 = d\<lparr>txBufferSize := txSize, rxBufferSize := rxSize\<rparr> in
          (case setupInterrupt P lg of (ok, lg1) \<Rightarrow>
             if \<not> ok then (False, d1, lg1)
             else
               (case (owner, intAction) of
                  (Some ow, Some act) \<Rightarrow>
                    let lg2 = lg1 @ [EvInterruptEventSource ow act] in
                    (case interruptEventSource_returns P lg2 of
                       None \<Rightarrow>
                         (bool_of_IOReturn kIOReturnError, d1\<lparr>childInterruptSource := None\<rparr>, lg2)
                     | Some src \<Rightarrow>
                         openChannel_controller_calls P
                           (d1\<lparr>childInterruptSource := Some src\<rparr>,
                            lg2 @ [EvAddEventSource src, EvEnable src]))
                | _ \<Rightarrow> openChannel_controller_calls P (d1, lg1))))"

definition closeChannel :: "device \<times> log \<Rightarrow> device \<times> log" where
  "closeChannel s =
     (case s of (d, lg) \<Rightarrow>
        (case childInterruptSource d of
           Some src \<Rightarrow>
             (d\<lparr>childInterruptSource := None\<rparr>,
              teardownInterrupt (lg @ [EvDisable src, EvRemoveEventSource src]))
         | None \<Rightarrow> (d, teardownInterrupt lg)))"

definition detach :: "device \<times> log \<Rightarrow> device \<times> log" where
  "detach s =
     (case s of (d, lg) \<Rightarrow>
        (case (if channelIsOpen d then closeChannel (d, lg) else (d, lg)) of
           (d1, lg1) \<Rightarrow> (d1, lg1 @ [EvSuperDetach])))"

section \<open>HyperVKeyboard\<close>

record keyboard =
  hvDevice :: "device option"
  interruptSource :: "pointer option"

text \<open>
  A call through a NULL pointer does not return. \<open>start\<close> does not test the event source
  it creates before using it.
\<close>

datatype 'a outcome = Returned 'a | NullDereference

definition connectKeyboard :: "platform \<Rightarrow> log \<Rightarrow> bool \<times> log" where
  "connectKeyboard P lg =
     (True, lg @ [EvWriteInbandPacket (kHyperVKeyboardMessageTypeProtocolRequest P)
                    (kHyperVKeyboardVersion P) (sizeof_ProtocolRequest P) True])"

text \<open>
  \<open>start\<close>: \<open>provider\<close> is the result of the cast of the provider to the VMBus nub (the nub
  itself, or NULL). \<open>openChannel\<close> is called with two arguments; owner and action
  are NULL.
\<close>

definition start ::
  "platform \<Rightarrow> device option \<Rightarrow> keyboard \<times> log \<Rightarrow> (bool \<times> keyboard \<times> log) outcome" where
  "start P provider s =
     (case s of (k, lg) \<Rightarrow>
        let lg1 = lg @ [EvSuperStart] in
        if \<not> super_start_returns P lg1 then Returned (False, k, lg1)
        else
          (case provider of
             None \<Rightarrow> Returned (False, k\<lparr>hvDevice := None\<rparr>, lg1 @ [EvSuperStop])
           | Some dev \<Rightarrow>
               let lg2 = lg1 @ [EvRetain, EvProviderInterruptEventSource] in
               (case interruptEventSource_returns P lg2 of
                  None \<Rightarrow> NullDereference
                | Some src \<Rightarrow>
                    let k1 = k\<lparr>hvDevice := Some dev, interruptSource := Some src\<rparr>;
                        lg3 = lg2 @ [EvAddEventSource src, EvEnable src] in
                    (case openChannel P (kHyperVKeyboardRingBufferSize P)
                            (kHyperVKeyboardRingBufferSize P) None None (dev, lg3) of
                       (opened, dev', lg4) \<Rightarrow>
                         if \<not> opened then
                           Returned (False,
                             k1\<lparr>hvDevice := Some dev', interruptSource := None\<rparr>,
                             lg4 @ [EvDisable src, EvRemoveEventSource src, EvRelease src,
                                    EvSuperStop])
                         else
                           (case connectKeyboard P lg4 of
                              (r, lg5) \<Rightarrow> Returned (True, k1\<lparr>hvDevice := Some dev'\<rparr>, lg5))))))"

definition getKeyCode :: "platform \<Rightarrow> HyperVKeyboardMessageKeystroke \<Rightarrow> UInt32" where
  "getKeyCode P keyEvent =
     ucast (PS2ToADBMapStock P
              (unat (makeCode keyEvent) + (if isE0 keyEvent then kADBConverterExStart P else 0)))"

text \<open>The \<open>switch\<close> on the type of a message that was read (the debug logging left out).\<close>

definition handleMessage :: "platform \<Rightarrow> HyperVKeyboardMessage \<Rightarrow> log \<Rightarrow> log" where
  "handleMessage P message lg =
     (if header_type message = kHyperVKeyboardMessageTypeProtocolResponse P then lg
      else if header_type message = kHyperVKeyboardMessageTypeEvent P then
        let lg1 = lg @ [EvClockGetUptime];
            time = clock_get_uptime_returns P lg1
        in lg1 @ [EvDispatchKeyboardEvent (getKeyCode P (keystroke message))
                    (\<not> isBreak (keystroke message)) time]
      else lg)"

datatype 'a loop_step = Break 'a | Continue 'a

text \<open>
  One pass through the body of the \<open>do ... while (true)\<close> loop of \<open>handleInterrupt\<close>.
  \<open>sizeof (data128)\<close> is 128.
\<close>

definition handleInterrupt_body :: "platform \<Rightarrow> log \<Rightarrow> log loop_step" where
  "handleInterrupt_body P lg =
     (let lg1 = lg @ [EvNextInbandPacketAvailable] in
      case nextInbandPacketAvailable_returns P lg1 of
        None \<Rightarrow> Break lg1
      | Some pktDataLength \<Rightarrow>
          (case (if pktDataLength \<le> 128 then (data128, lg1)
                 else
                   let p = IOMalloc_returns P lg1 pktDataLength
                   in (heap p, lg1 @ [EvIOMalloc pktDataLength p])) of
             (message, lg2) \<Rightarrow>
               let lg3 = lg2 @ [EvReadInbandCompletionPacket message pktDataLength] in
               (case readInbandCompletionPacket_returns P lg3 of
                  (r, contents) \<Rightarrow>
                    let lg4 = (if r = kIOReturnSuccess then handleMessage P contents lg3 else lg3)
                    in Continue (if pktDataLength > 128
                                 then lg4 @ [EvIOFree message pktDataLength] else lg4))))"

text \<open>The loop. It ends when the body breaks, and only then; \<open>None\<close> is a loop that never ends.\<close>

partial_function (option) handleInterrupt :: "platform \<Rightarrow> log \<Rightarrow> log option" where
  "handleInterrupt P lg =
     (case handleInterrupt_body P lg of
        Break lg' \<Rightarrow> Some lg'
      | Continue lg' \<Rightarrow> handleInterrupt P lg')"

declare handleInterrupt.simps [code]

text \<open>
  The heap memory that a sequence of calls leaves allocated, given what was allocated
  before it: \<open>IOMalloc\<close> adds a block, \<open>IOFree\<close> of a heap block removes it.
\<close>

fun live_blocks :: "event list \<Rightarrow> (pointer \<times> UInt32) list \<Rightarrow> (pointer \<times> UInt32) list" where
  "live_blocks [] h = h"
| "live_blocks (EvIOMalloc n p # es) h = live_blocks es ((p, n) # h)"
| "live_blocks (EvIOFree (heap p) n # es) h = live_blocks es (remove1 (p, n) h)"
| "live_blocks (e # es) h = live_blocks es h"

section \<open>GPADL Registry\<close>

datatype spec_error = AllocationError | GpadlError | ChannelOpenError

text \<open>
  Modelled from the spec: the allocation of GPADL handles by the Registry, whose code is in
  the VMBus controller and not at hand. The spec: \<open>register\<close> returns a handle or fails
  with \<open>GpadlError\<close>; it "allocates the next unused handle (monotonically increasing
  from a fixed starting value)", then sends the GPADL messages and waits for the host's
  creation-complete message; a handle is 32-bit on the wire; the counter is owned by the
  Registry; a handle is never reissued. The Registry keeps the number of the next unused
  handle. A registration takes that number as its handle and moves the counter on before
  the host answers, so a handle the host refuses is spent; when no 32-bit handle is unused
  any more, \<open>register\<close> fails. \<open>created\<close> is the host's answer. The page list and the
  messages themselves are left out. The starting value is \<open>kHyperVGpadlStartHandle\<close> of
  the header.
\<close>

record registry =
  nextGpadlHandle :: nat

definition registry_new :: registry where
  "registry_new = \<lparr>nextGpadlHandle = unat kHyperVGpadlStartHandle\<rparr>"

definition gpadl_register :: "bool \<Rightarrow> registry \<Rightarrow> (spec_error + UInt32) \<times> registry" where
  "gpadl_register created r =
     (if 2 ^ 32 \<le> nextGpadlHandle r then (Inl GpadlError, r)
      else (if created then Inr (of_nat (nextGpadlHandle r)) else Inl GpadlError,
            r\<lparr>nextGpadlHandle := Suc (nextGpadlHandle r)\<rparr>))"

text \<open>
  Modelled from the spec: \<open>teardown\<close> of the Registry, absent like \<open>register\<close>. The
  spec: it "sends a teardown request and blocks until host acknowledgment; on timeout, the
  handle is leaked deliberately (never reused)" and the failure is surfaced. \<open>acked\<close> is
  whether the acknowledgment came. The counter does not move either way.
\<close>

definition gpadl_teardown :: "UInt32 \<Rightarrow> bool \<Rightarrow> registry \<Rightarrow> (spec_error + unit) \<times> registry" where
  "gpadl_teardown h acked r = (if acked then Inr () else Inl GpadlError, r)"

datatype registry_call = Register bool | Teardown UInt32 bool

text \<open>
  The handles that a sequence of calls to the Registry issues (returns from a successful
  \<open>register\<close>), in order.
\<close>

fun issued_handles :: "registry_call list \<Rightarrow> registry \<Rightarrow> UInt32 list" where
  "issued_handles [] r = []"
| "issued_handles (Register created # cs) r =
     (case gpadl_register created r of
        (Inr h, r') \<Rightarrow> h # issued_handles cs r'
      | (Inl e, r') \<Rightarrow> issued_handles cs r')"
| "issued_handles (Teardown h acked # cs) r = issued_handles cs (snd (gpadl_teardown h acked r))"

section \<open>Channel open, as the spec has it\<close>







section \<open>Sample platforms and objects\<close>

text \<open>
  A platform on which every collaborator succeeds. Event sources get the length of the log
  as their address; the receive ring holds one packet of 200 bytes (a key event) followed
  by one of 16 bytes whose read fails.
\<close>

definition sample_message :: HyperVKeyboardMessage where
  "sample_message = \<lparr>header_type = 3, keystroke = \<lparr>makeCode = 30, isBreak = False, isE0 = False\<rparr>\<rparr>"

definition platform_ok :: platform where
  "platform_ok = \<lparr>
     super_attach_returns = (\<lambda>lg. True),
     setupInterrupt_returns = (\<lambda>lg. True),
     interruptEventSource_returns = (\<lambda>lg. Some (length lg)),
     initVMBusChannel_returns = (\<lambda>lg. (True, Some 100, Some 101)),
     openVMBusChannel_returns = (\<lambda>lg. True),
     super_start_returns = (\<lambda>lg. True),
     nextInbandPacketAvailable_returns =
       (\<lambda>lg. if length lg = 1 then Some 200 else if length lg = 7 then Some 16 else None),
     IOMalloc_returns = (\<lambda>lg n. 4096),
     readInbandCompletionPacket_returns =
       (\<lambda>lg. if length lg = 3 then (kIOReturnSuccess, sample_message)
             else (kIOReturnError, sample_message)),
     clock_get_uptime_returns = (\<lambda>lg. 77),
     kHyperVKeyboardRingBufferSize = 0x8000,
     kHyperVKeyboardMessageTypeProtocolRequest = 1,
     kHyperVKeyboardMessageTypeProtocolResponse = 2,
     kHyperVKeyboardMessageTypeEvent = 3,
     kHyperVKeyboardVersion = 0x10000,
     sizeof_ProtocolRequest = 8,
     PS2ToADBMapStock = (\<lambda>i. 0),
     kADBConverterExStart = 256 \<rparr>"

definition platform_no_interrupt :: platform where
  "platform_no_interrupt = platform_ok\<lparr>setupInterrupt_returns := (\<lambda>lg. False)\<rparr>"

definition platform_host_rejects :: platform where
  "platform_host_rejects =
     platform_ok\<lparr>initVMBusChannel_returns := (\<lambda>lg. (False, None, None)),
                 openVMBusChannel_returns := (\<lambda>lg. False)\<rparr>"

definition platform_no_event_source :: platform where
  "platform_no_event_source = platform_ok\<lparr>interruptEventSource_returns := (\<lambda>lg. None)\<rparr>"

text \<open>A nub as \<open>attach\<close> leaves it, for channel 5, and the same nub holding an open channel.\<close>

definition attached_device :: device where
  "attached_device = \<lparr>channelIsOpen = False, channelId = 5, vmbusProvider = Some 1,
     txBufferSize = 0, rxBufferSize = 0, txBuffer = None, rxBuffer = None,
     childInterruptSource = None\<rparr>"

definition open_device :: device where
  "open_device = \<lparr>channelIsOpen = True, channelId = 5, vmbusProvider = Some 1,
     txBufferSize = 4096, rxBufferSize = 4096, txBuffer = Some 100, rxBuffer = Some 101,
     childInterruptSource = Some 7\<rparr>"

definition sample_keyboard :: keyboard where
  "sample_keyboard = \<lparr>hvDevice = None, interruptSource = None\<rparr>"



section \<open>Opening a channel\<close>

lemmas openChannel_defs =
  openChannel_def openChannel_controller_calls_def initVMBusChannel_def
  openVMBusChannel_def setupInterrupt_def Let_def

lemma openChannel_open_noop:
  "channelIsOpen d \<Longrightarrow> openChannel P tx rx ow act (d, lg) = (True, d, lg)"
  by (simp add: openChannel_def)

lemma openChannel_keeps_flag:
  "channelIsOpen (fst (snd (openChannel P tx rx ow act (d, lg)))) = channelIsOpen d"
  by (auto simp: openChannel_defs split: option.splits prod.splits)

lemma attach_not_open:
  "attach P n prov (d, lg) = (True, d', lg') \<Longrightarrow> \<not> channelIsOpen d'"
  by (auto simp: attach_def Let_def split: if_splits option.splits)

text \<open>
  C1. A second \<open>openChannel\<close> after a first one that succeeded should return success and
  do nothing. The guard at the head of \<open>openChannel\<close> does that for a nub whose
  \<open>channelIsOpen\<close> is set (\<open>openChannel_open_noop\<close>), but no path of \<open>openChannel\<close>
  sets the flag (\<open>openChannel_keeps_flag\<close>), and \<open>attach\<close> clears it
  (\<open>attach_not_open\<close>). On the nub that \<open>attach\<close> leaves, a first call with sizes 4096
  succeeds and leaves the flag clear; the second call, with sizes 8192, stores the new
  sizes and sets up the interrupt, initialises the buffers and opens the channel again.
\<close>

theorem openChannel_second_call_repeats_setup:
  "openChannel platform_ok 4096 4096 None None (attached_device, []) =
     (True,
      attached_device\<lparr>txBufferSize := 4096, rxBufferSize := 4096,
                       txBuffer := Some 100, rxBuffer := Some 101\<rparr>,
      [EvSetupInterrupt, EvInitVMBusChannel 5 4096 4096, EvOpenVMBusChannel 5])
   \<and> \<not> channelIsOpen (attached_device\<lparr>txBufferSize := 4096, rxBufferSize := 4096,
                                         txBuffer := Some 100, rxBuffer := Some 101\<rparr>)
   \<and> openChannel platform_ok 8192 8192 None None
       (attached_device\<lparr>txBufferSize := 4096, rxBufferSize := 4096,
                         txBuffer := Some 100, rxBuffer := Some 101\<rparr>,
        [EvSetupInterrupt, EvInitVMBusChannel 5 4096 4096, EvOpenVMBusChannel 5]) =
     (True,
      attached_device\<lparr>txBufferSize := 8192, rxBufferSize := 8192,
                       txBuffer := Some 100, rxBuffer := Some 101\<rparr>,
      [EvSetupInterrupt, EvInitVMBusChannel 5 4096 4096, EvOpenVMBusChannel 5,
       EvSetupInterrupt, EvInitVMBusChannel 5 8192 8192, EvOpenVMBusChannel 5])"
  by (simp add: openChannel_defs platform_ok_def attached_device_def)

lemma openChannel_without_child:
  "\<not> channelIsOpen d \<Longrightarrow> setupInterrupt_returns P (lg @ [EvSetupInterrupt]) \<Longrightarrow>
   openChannel P tx rx None act (d, lg) =
     (True,
      d\<lparr>txBufferSize := tx, rxBufferSize := rx,
        txBuffer := fst (snd (initVMBusChannel_returns P
                      (lg @ [EvSetupInterrupt, EvInitVMBusChannel (channelId d) tx rx]))),
        rxBuffer := snd (snd (initVMBusChannel_returns P
                      (lg @ [EvSetupInterrupt, EvInitVMBusChannel (channelId d) tx rx])))\<rparr>,
      lg @ [EvSetupInterrupt, EvInitVMBusChannel (channelId d) tx rx,
            EvOpenVMBusChannel (channelId d)])"
  by (simp add: openChannel_defs split: prod.splits)

lemma openChannel_setupInterrupt_fails:
  "\<not> channelIsOpen d \<Longrightarrow> \<not> setupInterrupt_returns P (lg @ [EvSetupInterrupt]) \<Longrightarrow>
   openChannel P tx rx ow act (d, lg) =
     (False, d\<lparr>txBufferSize := tx, rxBufferSize := rx\<rparr>, lg @ [EvSetupInterrupt])"
  by (simp add: openChannel_defs)

text \<open>
  C2. A failure of any step of the open should make \<open>openChannel\<close> report failure, leave
  the channel closed and release what was acquired. The failure of \<open>setupInterrupt\<close> is
  reported (\<open>openChannel_setupInterrupt_fails\<close>); what \<open>initVMBusChannel\<close> and
  \<open>openVMBusChannel\<close> return is dropped (\<open>openChannel_without_child\<close>). On a platform
  whose controller fails both calls, on the nub that \<open>attach\<close> leaves, \<open>openChannel\<close>
  returns true; the interrupt that was set up is not torn down.
\<close>

theorem openChannel_reports_success_when_host_rejects:
  "\<not> fst (initVMBusChannel_returns platform_host_rejects
            [EvSetupInterrupt, EvInitVMBusChannel 5 4096 4096])
   \<and> \<not> openVMBusChannel_returns platform_host_rejects
          [EvSetupInterrupt, EvInitVMBusChannel 5 4096 4096, EvOpenVMBusChannel 5]
   \<and> openChannel platform_host_rejects 4096 4096 None None (attached_device, []) =
       (True, attached_device\<lparr>txBufferSize := 4096, rxBufferSize := 4096\<rparr>,
        [EvSetupInterrupt, EvInitVMBusChannel 5 4096 4096, EvOpenVMBusChannel 5])"
  by (simp add: openChannel_defs platform_host_rejects_def platform_ok_def attached_device_def)




text \<open>
  C9. Whenever \<open>setupInterrupt\<close> succeeds, \<open>openChannel\<close> returns true:
  \<open>kIOReturnError\<close> converts to true; when the child event source cannot be created
  \<open>openChannel\<close> returns at once, with that value and without calling the controller; and
  what \<open>initVMBusChannel\<close> and \<open>openVMBusChannel\<close> return has no part in the result.
\<close>

theorem openChannel_true_after_setupInterrupt:
  "setupInterrupt_returns P (lg @ [EvSetupInterrupt]) \<Longrightarrow>
     fst (openChannel P tx rx ow act (d, lg))
   \<and> bool_of_IOReturn kIOReturnError
   \<and> (\<not> channelIsOpen d \<and> ow = Some o' \<and> act = Some a'
        \<and> interruptEventSource_returns P
            (lg @ [EvSetupInterrupt, EvInterruptEventSource o' a']) = None \<longrightarrow>
        openChannel P tx rx ow act (d, lg) =
          (bool_of_IOReturn kIOReturnError,
           d\<lparr>txBufferSize := tx, rxBufferSize := rx, childInterruptSource := None\<rparr>,
           lg @ [EvSetupInterrupt, EvInterruptEventSource o' a']))
   \<and> fst (openChannel (P\<lparr>initVMBusChannel_returns := f, openVMBusChannel_returns := g\<rparr>)
            tx rx ow act (d, lg))"
  by (auto simp: openChannel_defs bool_of_IOReturn_def kIOReturnError_def
           split: option.splits prod.splits)

theorem openChannel_true_after_setupInterrupt_witness:
  "setupInterrupt_returns platform_no_event_source ([] @ [EvSetupInterrupt])
   \<and> \<not> channelIsOpen attached_device
   \<and> interruptEventSource_returns platform_no_event_source
       ([] @ [EvSetupInterrupt, EvInterruptEventSource 1 2]) = None
   \<and> openChannel platform_no_event_source 4096 4096 (Some 1) (Some 2) (attached_device, []) =
       (True, attached_device\<lparr>txBufferSize := 4096, rxBufferSize := 4096\<rparr>,
        [EvSetupInterrupt, EvInterruptEventSource 1 2])"
proof -
  have h: "setupInterrupt_returns platform_no_event_source ([] @ [EvSetupInterrupt])"
    by (simp add: platform_no_event_source_def platform_ok_def)
  have c: "\<not> channelIsOpen attached_device"
    by (simp add: attached_device_def)
  have n: "interruptEventSource_returns platform_no_event_source
       ([] @ [EvSetupInterrupt, EvInterruptEventSource 1 2]) = None"
    by (simp add: platform_no_event_source_def)
  from openChannel_true_after_setupInterrupt
         [OF h, of 4096 4096 "Some 1" "Some 2" attached_device 1 2] h c n
  show ?thesis by (simp add: attached_device_def)
qed

section \<open>Closing a channel\<close>

lemma closeChannel_order:
  "closeChannel (d, lg) =
     (d\<lparr>childInterruptSource := None\<rparr>,
      lg @ (case childInterruptSource d of
              Some src \<Rightarrow> [EvDisable src, EvRemoveEventSource src]
            | None \<Rightarrow> [])
         @ [EvTeardownInterrupt])
   \<and> detach (d, lg) =
       (if channelIsOpen d
        then (fst (closeChannel (d, lg)), snd (closeChannel (d, lg)) @ [EvSuperDetach])
        else (d, lg @ [EvSuperDetach]))"
  by (cases d) (auto simp: closeChannel_def detach_def teardownInterrupt_def split: option.splits)

text \<open>
  C3. \<open>close\<close> should tear down the interrupt wiring, send a close-channel message, tear
  down the GPADLs, release the DMA buffers and leave the channel closed. \<open>closeChannel\<close>
  does the first step only (\<open>closeChannel_order\<close>); the rest is the \<open>TODO: close
  channel\<close> of the source. On a nub that holds an open channel it disables and removes the
  child event source and tears down the interrupt; no other call is made, the nub is still
  marked open and still holds both ring buffers.
\<close>

theorem closeChannel_leaves_channel_open:
  "channelIsOpen open_device
   \<and> closeChannel (open_device, []) =
       (open_device\<lparr>childInterruptSource := None\<rparr>,
        [EvDisable 7, EvRemoveEventSource 7, EvTeardownInterrupt])
   \<and> channelIsOpen (fst (closeChannel (open_device, [])))
   \<and> txBuffer (fst (closeChannel (open_device, []))) = Some 100
   \<and> rxBuffer (fst (closeChannel (open_device, []))) = Some 101"
  by (simp add: closeChannel_def teardownInterrupt_def open_device_def)

section \<open>GPADL handles\<close>



lemma issued_handles_bounds:
  "sorted_wrt (<) (issued_handles cs r)
   \<and> (\<forall>h \<in> set (issued_handles cs r). nextGpadlHandle r \<le> unat h)"
proof (induction cs arbitrary: r)
  case Nil
  show ?case by simp
next
  case (Cons c cs)
  show ?case
  proof (cases c)
    case (Teardown h acked)
    with Cons [of r] show ?thesis by (simp add: gpadl_teardown_def)
  next
    case (Register created)
    show ?thesis
    proof (cases "2 ^ 32 \<le> nextGpadlHandle r")
      case True
      with Register Cons [of r] show ?thesis by (simp add: gpadl_register_def)
    next
      case False
      let ?r' = "r\<lparr>nextGpadlHandle := Suc (nextGpadlHandle r)\<rparr>"
      from False have small: "nextGpadlHandle r < 2 ^ 32" by simp
      then have un: "unat (of_nat (nextGpadlHandle r) :: UInt32) = nextGpadlHandle r"
        by (simp add: unat_of_nat)
      from Cons [of ?r'] have
        srt: "sorted_wrt (<) (issued_handles cs ?r')" and
        lb: "\<forall>h \<in> set (issued_handles cs ?r'). Suc (nextGpadlHandle r) \<le> unat h"
        by simp_all
      show ?thesis
      proof (cases created)
        case refused: False
        with Register small srt lb show ?thesis
          by (auto simp: gpadl_register_def)
      next
        case True
        have lt: "\<forall>h \<in> set (issued_handles cs ?r'). (of_nat (nextGpadlHandle r) :: UInt32) < h"
          using lb un by (auto simp: word_less_nat_alt)
        from True Register small srt lb lt un show ?thesis
          by (auto simp: gpadl_register_def)
      qed
    qed
  qed
qed


text \<open>
  C5. The handles that the Registry issues, over any sequence of registrations (accepted
  or refused by the host) and teardowns (acknowledged or not), are strictly increasing and
  so never repeat, none is below the starting value 0xE1E10, and a first registration
  gets 0xE1E10.
\<close>

theorem gpadl_handles_strictly_increasing:
  "sorted_wrt (<) (issued_handles cs registry_new)
   \<and> distinct (issued_handles cs registry_new)
   \<and> (\<forall>h \<in> set (issued_handles cs registry_new). kHyperVGpadlStartHandle \<le> h)
   \<and> issued_handles (Register True # cs) registry_new ! 0 = kHyperVGpadlStartHandle"
proof -
  let ?hs = "issued_handles cs registry_new"
  from issued_handles_bounds [of cs registry_new] have
    srt: "sorted_wrt (<) ?hs" and
    lb: "\<forall>h \<in> set ?hs. unat kHyperVGpadlStartHandle \<le> unat h"
    by (simp_all add: registry_new_def)
  from srt have "distinct ?hs"
    by (simp add: strict_sorted_iff)
  moreover from lb have "\<forall>h \<in> set ?hs. kHyperVGpadlStartHandle \<le> h"
    by (simp add: word_le_nat_alt)
  moreover have "issued_handles (Register True # cs) registry_new ! 0 = kHyperVGpadlStartHandle"
    by (simp add: gpadl_register_def registry_new_def kHyperVGpadlStartHandle_def)
  ultimately show ?thesis using srt by blast
qed

theorem gpadl_handles_strictly_increasing_witness:
  "issued_handles [Register True, Teardown 0xE1E10 True, Register False, Register True,
                   Teardown 0xE1E12 False, Register True] registry_new =
     [0xE1E10, 0xE1E12, 0xE1E13]
   \<and> sorted_wrt (<) [0xE1E10, 0xE1E12, 0xE1E13 :: UInt32]
   \<and> distinct [0xE1E10, 0xE1E12, 0xE1E13 :: UInt32]
   \<and> kHyperVGpadlStartHandle \<le> 0xE1E10
   \<and> kHyperVGpadlStartHandle \<le> 0xE1E12
   \<and> kHyperVGpadlStartHandle \<le> 0xE1E13"
proof -
  have v: "issued_handles [Register True, Teardown 0xE1E10 True, Register False, Register True,
                   Teardown 0xE1E12 False, Register True] registry_new =
     [0xE1E10, 0xE1E12, 0xE1E13]"
    by (simp add: gpadl_register_def gpadl_teardown_def registry_new_def
        kHyperVGpadlStartHandle_def)
  from gpadl_handles_strictly_increasing
         [of "[Register True, Teardown 0xE1E10 True, Register False, Register True,
               Teardown 0xE1E12 False, Register True]", unfolded v] v
  show ?thesis by simp
qed



section \<open>Starting the keyboard\<close>

lemma start_unwinds_when_open_fails:
  "super_start_returns P (lg @ [EvSuperStart]) \<Longrightarrow>
   interruptEventSource_returns P
     (lg @ [EvSuperStart, EvRetain, EvProviderInterruptEventSource]) = Some src \<Longrightarrow>
   openChannel P (kHyperVKeyboardRingBufferSize P) (kHyperVKeyboardRingBufferSize P) None None
     (dev, lg @ [EvSuperStart, EvRetain, EvProviderInterruptEventSource,
                 EvAddEventSource src, EvEnable src]) = (False, dev', lg') \<Longrightarrow>
   start P (Some dev) (k, lg) =
     Returned (False, k\<lparr>hvDevice := Some dev', interruptSource := None\<rparr>,
               lg' @ [EvDisable src, EvRemoveEventSource src, EvRelease src, EvSuperStop])"
  by (simp add: start_def Let_def)

text \<open>
  C8. When the open of the channel fails during \<open>start\<close>, \<open>start\<close> should undo all it
  has done and return false. On a platform whose controller fails \<open>initVMBusChannel\<close> and
  \<open>openVMBusChannel\<close>, \<open>openChannel\<close> returns true, and \<open>start\<close> keeps the event
  source, writes the protocol request and returns true. When \<open>openChannel\<close> does return
  false (\<open>setupInterrupt\<close> fails), \<open>start\<close> disables, removes and releases the event
  source, stops the superclass and returns false (\<open>start_unwinds_when_open_fails\<close>); the
  nub that was retained (\<open>EvRetain\<close>) is not released.
\<close>

theorem start_reports_success_when_host_rejects:
  "start platform_host_rejects (Some attached_device) (sample_keyboard, []) =
     Returned (True,
       \<lparr>hvDevice = Some (attached_device\<lparr>txBufferSize := 0x8000, rxBufferSize := 0x8000\<rparr>),
        interruptSource = Some 3\<rparr>,
       [EvSuperStart, EvRetain, EvProviderInterruptEventSource, EvAddEventSource 3,
        EvEnable 3, EvSetupInterrupt, EvInitVMBusChannel 5 0x8000 0x8000,
        EvOpenVMBusChannel 5, EvWriteInbandPacket 1 0x10000 8 True])
   \<and> start platform_no_interrupt (Some attached_device) (sample_keyboard, []) =
       Returned (False,
         \<lparr>hvDevice = Some (attached_device\<lparr>txBufferSize := 0x8000, rxBufferSize := 0x8000\<rparr>),
          interruptSource = None\<rparr>,
         [EvSuperStart, EvRetain, EvProviderInterruptEventSource, EvAddEventSource 3,
          EvEnable 3, EvSetupInterrupt,
          EvDisable 3, EvRemoveEventSource 3, EvRelease 3, EvSuperStop])"
  by (simp add: start_def connectKeyboard_def openChannel_defs platform_host_rejects_def
      platform_no_interrupt_def platform_ok_def attached_device_def sample_keyboard_def)

section \<open>Draining the receive ring\<close>

lemma handleInterrupt_break:
  "handleInterrupt_body P lg = Break lg' \<Longrightarrow> handleInterrupt P lg = Some lg'"
  by (subst handleInterrupt.simps) simp

lemma handleInterrupt_continue:
  "handleInterrupt_body P lg = Continue lg' \<Longrightarrow> handleInterrupt P lg = handleInterrupt P lg'"
  by (subst handleInterrupt.simps) simp

lemma live_blocks_append: "live_blocks (es @ fs) h = live_blocks fs (live_blocks es h)"
  by (induction es h rule: live_blocks.induct) simp_all

text \<open>
  One pass through the loop body, call by call. A packet of at most 128 bytes is read into
  \<open>data128\<close>; a longer one into a block that \<open>IOMalloc\<close> gives for exactly its length,
  asked for after the length is known and before the read, and freed at the end of the
  pass. A message that was read makes no call or the two calls of a key event.
\<close>

lemma handleMessage_cases:
  "handleMessage P m lg = lg
   \<or> (\<exists>k b t. handleMessage P m lg = lg @ [EvClockGetUptime, EvDispatchKeyboardEvent k b t])"
  by (simp add: handleMessage_def Let_def)

lemma handleInterrupt_body_small:
  assumes "nextInbandPacketAvailable_returns P (lg @ [EvNextInbandPacketAvailable]) = Some n"
    and "n \<le> 128"
  shows "\<exists>es. handleInterrupt_body P lg =
           Continue (lg @ [EvNextInbandPacketAvailable, EvReadInbandCompletionPacket data128 n] @ es)
         \<and> (es = [] \<or> (\<exists>k b t. es = [EvClockGetUptime, EvDispatchKeyboardEvent k b t]))"
proof -
  let ?lg3 = "lg @ [EvNextInbandPacketAvailable, EvReadInbandCompletionPacket data128 n]"
  obtain r c where rc: "readInbandCompletionPacket_returns P ?lg3 = (r, c)"
    by (cases "readInbandCompletionPacket_returns P ?lg3")
  from assms(2) have nle: "\<not> 128 < n" by simp
  have body: "handleInterrupt_body P lg =
      Continue (if r = kIOReturnSuccess then handleMessage P c ?lg3 else ?lg3)"
    using assms rc nle by (simp add: handleInterrupt_body_def Let_def)
  from handleMessage_cases [of P c ?lg3] body show ?thesis
    by (cases "r = kIOReturnSuccess") auto
qed

lemma handleInterrupt_body_large:
  assumes "nextInbandPacketAvailable_returns P (lg @ [EvNextInbandPacketAvailable]) = Some n"
    and "128 < n"
  shows "\<exists>p es. handleInterrupt_body P lg =
           Continue (lg @ [EvNextInbandPacketAvailable, EvIOMalloc n p,
                           EvReadInbandCompletionPacket (heap p) n] @ es @ [EvIOFree (heap p) n])
         \<and> (es = [] \<or> (\<exists>k b t. es = [EvClockGetUptime, EvDispatchKeyboardEvent k b t]))"
proof -
  let ?p = "IOMalloc_returns P (lg @ [EvNextInbandPacketAvailable]) n"
  let ?lg3 = "lg @ [EvNextInbandPacketAvailable, EvIOMalloc n ?p,
                    EvReadInbandCompletionPacket (heap ?p) n]"
  obtain r c where rc: "readInbandCompletionPacket_returns P ?lg3 = (r, c)"
    by (cases "readInbandCompletionPacket_returns P ?lg3")
  from assms(2) have nle: "\<not> n \<le> 128" by simp
  have body: "handleInterrupt_body P lg =
      Continue ((if r = kIOReturnSuccess then handleMessage P c ?lg3 else ?lg3)
                @ [EvIOFree (heap ?p) n])"
    using assms rc nle by (simp add: handleInterrupt_body_def Let_def)
  from handleMessage_cases [of P c ?lg3] body show ?thesis
    by (cases "r = kIOReturnSuccess") auto
qed

lemma handleInterrupt_body_extends:
  "handleInterrupt_body P lg = Continue lg' \<Longrightarrow>
     \<exists>es. lg' = lg @ es \<and> (\<forall>h. live_blocks es h = h)"
proof (cases "nextInbandPacketAvailable_returns P (lg @ [EvNextInbandPacketAvailable])")
  case None
  then show "handleInterrupt_body P lg = Continue lg' \<Longrightarrow> ?thesis"
    by (simp add: handleInterrupt_body_def Let_def)
next
  case (Some n)
  assume c: "handleInterrupt_body P lg = Continue lg'"
  show ?thesis
  proof (cases "n \<le> 128")
    case True
    from handleInterrupt_body_small [OF Some True] c show ?thesis by auto
  next
    case False
    then have "128 < n" by simp
    from handleInterrupt_body_large [OF Some this] c show ?thesis by auto
  qed
qed

lemma handleInterrupt_run:
  assumes run: "handleInterrupt P lg = Some lg'"
  shows "\<exists>es. lg' = lg @ es @ [EvNextInbandPacketAvailable] \<and> (\<forall>h. live_blocks es h = h)"
proof -
  let ?Q = "\<lambda>(s :: platform \<times> log) y.
              \<exists>es. y = snd s @ es @ [EvNextInbandPacketAvailable] \<and> (\<forall>h. live_blocks es h = h)"
  have "?Q (P, lg) lg'"
  proof (rule handleInterrupt.raw_induct [where Pa = ?Q, OF _ run])
    fix f :: "platform \<Rightarrow> log \<Rightarrow> log option" and P lg y
    assume IH: "\<And>P lg y. f P lg = Some y \<Longrightarrow> ?Q (P, lg) y"
      and step: "(case handleInterrupt_body P lg of Break lg' \<Rightarrow> Some lg'
                  | Continue lg' \<Rightarrow> f P lg') = Some y"
    show "?Q (P, lg) y"
    proof (cases "handleInterrupt_body P lg")
      case (Break l)
      with step have "y = l" by simp
      moreover from Break have "l = lg @ [EvNextInbandPacketAvailable]"
        by (auto simp: handleInterrupt_body_def Let_def split: option.splits prod.splits)
      ultimately have "y = lg @ [] @ [EvNextInbandPacketAvailable]" by simp
      then show ?thesis by force
    next
      case (Continue l)
      with step have r: "f P l = Some y" by simp
      from handleInterrupt_body_extends [OF Continue] obtain es where
        es: "l = lg @ es" "\<forall>h. live_blocks es h = h" by blast
      from IH [OF r] obtain fs where
        fs: "y = l @ fs @ [EvNextInbandPacketAvailable]" "\<forall>h. live_blocks fs h = h" by auto
      from es fs have "y = lg @ (es @ fs) @ [EvNextInbandPacketAvailable]" by simp
      moreover from es fs have "\<forall>h. live_blocks (es @ fs) h = h"
        by (simp add: live_blocks_append)
      ultimately show ?thesis by force
    qed
  qed
  then show ?thesis by simp
qed

text \<open>
  C10. In a pass through the loop of \<open>handleInterrupt\<close> that finds a packet of
  \<open>n\<close> bytes, \<open>IOMalloc\<close> is called if and only if \<open>n\<close> exceeds 128, only for
  \<open>n\<close> bytes, and the pass ends with the \<open>IOFree\<close> of that block, whatever the
  read returned: the pass leaves allocated what was allocated before it. When no packet is
  available the loop ends at once. A run of the loop that ends has called
  \<open>nextInbandPacketAvailable\<close> last and leaves allocated what was allocated before it.
\<close>

theorem handleInterrupt_heap_discipline:
  "(nextInbandPacketAvailable_returns P (lg @ [EvNextInbandPacketAvailable]) = None \<longrightarrow>
      handleInterrupt P lg = Some (lg @ [EvNextInbandPacketAvailable]))
   \<and> (nextInbandPacketAvailable_returns P (lg @ [EvNextInbandPacketAvailable]) = Some n \<longrightarrow>
        (\<exists>lg'. handleInterrupt_body P lg = Continue lg'
           \<and> handleInterrupt P lg = handleInterrupt P lg'
           \<and> take (length lg) lg' = lg
           \<and> (128 < n \<longleftrightarrow>
                (\<exists>p. EvIOMalloc n p \<in> set (drop (length lg) lg')))
           \<and> (\<forall>m p. EvIOMalloc m p \<in> set (drop (length lg) lg') \<longrightarrow>
                 m = n \<and> last lg' = EvIOFree (heap p) n)
           \<and> live_blocks (drop (length lg) lg') h = h))
   \<and> (handleInterrupt P lg = Some lg'' \<longrightarrow>
        (\<exists>es. lg'' = lg @ es @ [EvNextInbandPacketAvailable] \<and> live_blocks es h = h))"
proof (intro conjI impI)
  assume "nextInbandPacketAvailable_returns P (lg @ [EvNextInbandPacketAvailable]) = None"
  then have "handleInterrupt_body P lg = Break (lg @ [EvNextInbandPacketAvailable])"
    by (simp add: handleInterrupt_body_def Let_def)
  then show "handleInterrupt P lg = Some (lg @ [EvNextInbandPacketAvailable])"
    by (rule handleInterrupt_break)
next
  assume "handleInterrupt P lg = Some lg''"
  from handleInterrupt_run [OF this]
  show "\<exists>es. lg'' = lg @ es @ [EvNextInbandPacketAvailable] \<and> live_blocks es h = h"
    by blast
next
  assume peek: "nextInbandPacketAvailable_returns P (lg @ [EvNextInbandPacketAvailable]) = Some n"
  show "\<exists>lg'. handleInterrupt_body P lg = Continue lg'
           \<and> handleInterrupt P lg = handleInterrupt P lg'
           \<and> take (length lg) lg' = lg
           \<and> (128 < n \<longleftrightarrow>
                (\<exists>p. EvIOMalloc n p \<in> set (drop (length lg) lg')))
           \<and> (\<forall>m p. EvIOMalloc m p \<in> set (drop (length lg) lg') \<longrightarrow>
                 m = n \<and> last lg' = EvIOFree (heap p) n)
           \<and> live_blocks (drop (length lg) lg') h = h"
  proof (cases "n \<le> 128")
    case True
    then have nle: "\<not> 128 < n" by simp
    from handleInterrupt_body_small [OF peek True] obtain es where
      body: "handleInterrupt_body P lg =
           Continue (lg @ [EvNextInbandPacketAvailable, EvReadInbandCompletionPacket data128 n] @ es)"
      and es: "es = [] \<or> (\<exists>k b t. es = [EvClockGetUptime, EvDispatchKeyboardEvent k b t])"
      by blast
    from es nle show ?thesis
      using handleInterrupt_continue [OF body] body by auto
  next
    case False
    then have big: "128 < n" by simp
    from handleInterrupt_body_large [OF peek big] obtain p es where
      body: "handleInterrupt_body P lg =
           Continue (lg @ [EvNextInbandPacketAvailable, EvIOMalloc n p,
                           EvReadInbandCompletionPacket (heap p) n] @ es @ [EvIOFree (heap p) n])"
      and es: "es = [] \<or> (\<exists>k b t. es = [EvClockGetUptime, EvDispatchKeyboardEvent k b t])"
      by blast
    from es big show ?thesis
      using handleInterrupt_continue [OF body] body by auto
  qed
qed

theorem handleInterrupt_heap_discipline_witness:
  "nextInbandPacketAvailable_returns platform_ok ([] @ [EvNextInbandPacketAvailable]) = Some 200
   \<and> handleInterrupt_body platform_ok [] =
       Continue [EvNextInbandPacketAvailable, EvIOMalloc 200 4096,
                 EvReadInbandCompletionPacket (heap 4096) 200, EvClockGetUptime,
                 EvDispatchKeyboardEvent 0 True 77, EvIOFree (heap 4096) 200]
   \<and> nextInbandPacketAvailable_returns platform_ok
       ([EvNextInbandPacketAvailable, EvIOMalloc 200 4096,
         EvReadInbandCompletionPacket (heap 4096) 200, EvClockGetUptime,
         EvDispatchKeyboardEvent 0 True 77, EvIOFree (heap 4096) 200,
         EvNextInbandPacketAvailable, EvReadInbandCompletionPacket data128 16]
        @ [EvNextInbandPacketAvailable]) = None
   \<and> handleInterrupt platform_ok
       [EvNextInbandPacketAvailable, EvIOMalloc 200 4096,
         EvReadInbandCompletionPacket (heap 4096) 200, EvClockGetUptime,
         EvDispatchKeyboardEvent 0 True 77, EvIOFree (heap 4096) 200,
         EvNextInbandPacketAvailable, EvReadInbandCompletionPacket data128 16] =
       Some [EvNextInbandPacketAvailable, EvIOMalloc 200 4096,
         EvReadInbandCompletionPacket (heap 4096) 200, EvClockGetUptime,
         EvDispatchKeyboardEvent 0 True 77, EvIOFree (heap 4096) 200,
         EvNextInbandPacketAvailable, EvReadInbandCompletionPacket data128 16,
         EvNextInbandPacketAvailable]
   \<and> live_blocks [EvNextInbandPacketAvailable, EvIOMalloc 200 4096,
                 EvReadInbandCompletionPacket (heap 4096) 200, EvClockGetUptime,
                 EvDispatchKeyboardEvent 0 True 77, EvIOFree (heap 4096) 200] [] = []"
proof -
  let ?lg2 = "[EvNextInbandPacketAvailable, EvIOMalloc 200 4096,
         EvReadInbandCompletionPacket (heap 4096) 200, EvClockGetUptime,
         EvDispatchKeyboardEvent 0 True 77, EvIOFree (heap 4096) 200,
         EvNextInbandPacketAvailable, EvReadInbandCompletionPacket data128 16]"
  have p1: "nextInbandPacketAvailable_returns platform_ok ([] @ [EvNextInbandPacketAvailable])
              = Some 200"
    by (simp add: platform_ok_def)
  have p3: "nextInbandPacketAvailable_returns platform_ok (?lg2 @ [EvNextInbandPacketAvailable])
              = None"
    by (simp add: platform_ok_def)
  have b1: "handleInterrupt_body platform_ok [] =
       Continue [EvNextInbandPacketAvailable, EvIOMalloc 200 4096,
                 EvReadInbandCompletionPacket (heap 4096) 200, EvClockGetUptime,
                 EvDispatchKeyboardEvent 0 True 77, EvIOFree (heap 4096) 200]"
    by (simp add: handleInterrupt_body_def handleMessage_def getKeyCode_def Let_def
        platform_ok_def sample_message_def kIOReturnSuccess_def)
  from handleInterrupt_heap_discipline [of platform_ok "[]" 200 "[]" "[]"]
       handleInterrupt_heap_discipline [of platform_ok ?lg2 0 "[]" "[]"] p1 p3 b1
  show ?thesis by simp
qed


end
